theory Spec2Isabelle
  imports Complex_Main "HOL-Library.AList" "HOL-Library.Sublist"
begin

section \<open>Strings\<close>



definition bslash :: string where
  "bslash = [CHR 0x5C]"

section \<open>Story data (types.ts)\<close>

text \<open>
  \<^verbatim>\<open>StoryNode\<close> and \<^verbatim>\<open>StoryLink\<close> of \<^verbatim>\<open>types.ts\<close>. The optional layout fields
  \<^verbatim>\<open>x, y, fx, fy\<close> of a \<^verbatim>\<open>StoryNode\<close> are never written by the application state
  (the visualizer overwrites them in its own copies), so the story keeps the three
  content fields. The field \<^verbatim>\<open>id\<close> is called \<open>node_id\<close> / \<open>link_id\<close> here.
\<close>

record StoryNode =
  node_id :: string
  title :: string
  content :: string

record StoryLink =
  link_id :: string
  source :: string
  target :: string
  label :: string


section \<open>Application state and its handlers (App.tsx)\<close>

text \<open>
  The three \<^verbatim>\<open>useState\<close> cells of \<^verbatim>\<open>App\<close>: \<^verbatim>\<open>nodes\<close>, \<^verbatim>\<open>links\<close>
  and \<^verbatim>\<open>selectedNodeId\<close> (\<open>None\<close> is \<^verbatim>\<open>null\<close>). Every handler takes the
  state and returns the state after its setters have run.
\<close>

record app_state =
  nodes :: "StoryNode list"
  links :: "StoryLink list"
  selectedNodeId :: "string option"

definition handleDeleteNode :: "string \<Rightarrow> app_state \<Rightarrow> app_state" where
  "handleDeleteNode nodeId s =
     \<lparr> nodes = filter (\<lambda>n. node_id n \<noteq> nodeId) (nodes s),
       links = filter (\<lambda>l. source l \<noteq> nodeId \<and> target l \<noteq> nodeId) (links s),
       selectedNodeId = (if selectedNodeId s = Some nodeId then None else selectedNodeId s) \<rparr>"

text \<open>
  \<^verbatim>\<open>Date.now().toString()\<close>: the decimal digits of the clock reading (milliseconds,
  a natural number).
\<close>

fun toString :: "nat \<Rightarrow> string" where
  "toString n =
     (if n < 10 then [''0123456789'' ! n]
      else toString (n div 10) @ [''0123456789'' ! (n mod 10)])"

declare toString.simps [simp del]

text \<open>
  \<^verbatim>\<open>handleCreateNode\<close>: the clock reading \<open>now\<close> is what \<^verbatim>\<open>Date.now()\<close> returns at the
  call; the caller's defaults for title and content are applied before the call.
\<close>

definition handleCreateNode :: "nat \<Rightarrow> string \<Rightarrow> string \<Rightarrow> app_state \<Rightarrow> app_state" where
  "handleCreateNode now ttl cnt s =
     (let newNode = \<lparr> node_id = toString now, title = ttl, content = cnt \<rparr>
      in s \<lparr> nodes := nodes s @ [newNode], selectedNodeId := Some (node_id newNode) \<rparr>)"

definition handleUpdateNode :: "StoryNode \<Rightarrow> app_state \<Rightarrow> app_state" where
  "handleUpdateNode updatedNode s =
     s \<lparr> nodes := map (\<lambda>n. if node_id n = node_id updatedNode then updatedNode else n) (nodes s) \<rparr>"

definition handleAddLink :: "nat \<Rightarrow> string \<Rightarrow> string \<Rightarrow> string \<Rightarrow> app_state \<Rightarrow> app_state" where
  "handleAddLink now sourceId targetId lbl s =
     s \<lparr> links := links s @
           [\<lparr> link_id = toString now, source = sourceId, target = targetId, label = lbl \<rparr>] \<rparr>"

definition handleRemoveLink :: "string \<Rightarrow> app_state \<Rightarrow> app_state" where
  "handleRemoveLink linkId s = s \<lparr> links := filter (\<lambda>l. link_id l \<noteq> linkId) (links s) \<rparr>"

text \<open>A run of node creations, each with its own clock reading, title and content.\<close>

fun createNodes :: "(nat \<times> string \<times> string) list \<Rightarrow> app_state \<Rightarrow> app_state" where
  "createNodes [] s = s"
| "createNodes ((now, ttl, cnt) # cs) s = createNodes cs (handleCreateNode now ttl cnt s)"

subsection \<open>JSON import\<close>

text \<open>
  The first step of the import is
  \<^verbatim>\<open>rawContent.replace(/\\"|"(?:\\"|[^"])*"|(\/\/.*|\/\*[\s\S]*?\*\/)/g, (m, g) => g ? "" : m)\<close>.
  At each position the pattern tries, in this order: a backslash followed by a quote; a
  quoted string; a comment. A match of the first two is copied, a comment is dropped,
  and where nothing matches one character is copied.

  A quoted string is a quote, then as many items as possible of ``backslash quote'' or
  ``any character but a quote'', then a quote. A backslash is any character but a quote
  too, so a body is any text in which every quote comes directly after a backslash. The
  match therefore ends at the first quote that does not come directly after a backslash
  and, when there is no such quote, at the last quote of the text (which then comes
  after a backslash); with no quote at all there is no match. \<open>closingQuote\<close> returns
  the number of characters from the opening quote (excluded) to the closing quote
  (included): \<open>prevBackslash\<close> tells whether the character before was a backslash,
  \<open>k\<close> counts the characters read, \<open>cand\<close> is the last quote seen.
\<close>

fun closingQuote :: "bool \<Rightarrow> nat \<Rightarrow> nat option \<Rightarrow> string \<Rightarrow> nat option" where
  "closingQuote prevBackslash k cand [] = cand"
| "closingQuote prevBackslash k cand (c # cs) =
     (if c = CHR 0x22
      then (if prevBackslash then closingQuote False (Suc k) (Some (Suc k)) cs
            else Some (Suc k))
      else closingQuote (c = CHR 0x5C) (Suc k) cand cs)"

text \<open>
  \<^verbatim>\<open>\/\/.*\<close>: the dot matches up to the next line terminator (LF, CR, U+2028, U+2029; the
  last two are the bytes E2 80 A8 and E2 80 A9). \<open>restOfLine\<close> is the text from that
  terminator on.
\<close>

fun restOfLine :: "string \<Rightarrow> string" where
  "restOfLine [] = []"
| "restOfLine (c # cs) =
     (if c = CHR 0x0A \<or> c = CHR 0x0D
         \<or> (c = CHR 0xE2 \<and> (take 2 cs = [CHR 0x80, CHR 0xA8] \<or> take 2 cs = [CHR 0x80, CHR 0xA9]))
      then c # cs
      else restOfLine cs)"

text \<open>
  \<^verbatim>\<open>\/\*[\s\S]*?\*\/\<close>: after the opening \<^verbatim>\<open>/*\<close>, up to the first \<^verbatim>\<open>*/\<close>.
  \<open>afterCommentEnd\<close> is the text after that \<^verbatim>\<open>*/\<close>, \<open>None\<close> when there is none.
\<close>

fun afterCommentEnd :: "string \<Rightarrow> string option" where
  "afterCommentEnd [] = None"
| "afterCommentEnd [c] = None"
| "afterCommentEnd (a # b # cs) =
     (if a = CHR ''*'' \<and> b = CHR ''/'' then Some cs else afterCommentEnd (b # cs))"

lemma restOfLine_length: "length (restOfLine cs) \<le> length cs"
  by (induction cs) auto

lemma afterCommentEnd_length: "afterCommentEnd cs = Some r \<Longrightarrow> length r < length cs"
  by (induction cs arbitrary: r rule: afterCommentEnd.induct) (auto split: if_splits)

lemma restOfLine_drop: "length (restOfLine (tl cs)) < Suc (length cs)"
proof -
  have "length (restOfLine (tl cs)) \<le> length (tl cs)" by (rule restOfLine_length)
  then show ?thesis by simp
qed

lemma afterCommentEnd_drop:
  "afterCommentEnd (tl cs) = Some r \<Longrightarrow> length r < Suc (length cs)"
proof -
  assume "afterCommentEnd (tl cs) = Some r"
  then have "length r < length (tl cs)" by (rule afterCommentEnd_length)
  then show ?thesis by simp
qed

function stripComments :: "string \<Rightarrow> string" where
  "stripComments [] = []"
| "stripComments (c # cs) =
     (if c = CHR 0x5C \<and> take 1 cs = [CHR 0x22]
      then c # CHR 0x22 # stripComments (tl cs)
      else if c = CHR 0x22
      then (case closingQuote False 0 None cs of
              Some n \<Rightarrow> c # take n cs @ stripComments (drop n cs)
            | None \<Rightarrow> c # stripComments cs)
      else if c = CHR ''/'' \<and> take 1 cs = [CHR ''/'']
      then stripComments (restOfLine (tl cs))
      else if c = CHR ''/'' \<and> take 1 cs = [CHR ''*'']
      then (case afterCommentEnd (tl cs) of
              Some r \<Rightarrow> stripComments r
            | None \<Rightarrow> c # stripComments cs)
      else c # stripComments cs)"
  by pat_completeness auto
termination
  by (relation "measure length") (simp_all add: restOfLine_drop afterCommentEnd_drop)

declare stripComments.simps [simp del]

text \<open>
  The value \<^verbatim>\<open>JSON.parse\<close> returns. An object is the list of its members, looked up by
  key; \<open>None\<close> stands for \<^verbatim>\<open>undefined\<close>.
\<close>

datatype json =
    JNull
  | JBool bool
  | JNum real
  | JStr string
  | JArr "json list"
  | JObj "(string \<times> json) list"

fun truthy :: "json \<Rightarrow> bool" where
  "truthy JNull = False"
| "truthy (JBool b) = b"
| "truthy (JNum r) = (r \<noteq> 0)"
| "truthy (JStr s) = (s \<noteq> [])"
| "truthy (JArr xs) = True"
| "truthy (JObj kvs) = True"

fun get_prop :: "json \<Rightarrow> string \<Rightarrow> json option" where
  "get_prop (JObj kvs) key = map_of kvs key"
| "get_prop v key = None"

fun isArray :: "json option \<Rightarrow> bool" where
  "isArray (Some (JArr xs)) = True"
| "isArray v = False"

fun elements :: "json option \<Rightarrow> json list" where
  "elements (Some (JArr xs)) = xs"
| "elements v = []"

text \<open>The two dialogs \<^verbatim>\<open>handleFileChange\<close> can open with \<^verbatim>\<open>alert\<close>.\<close>

datatype import_alert =
    InvalidFormat
  | ImportError string

text \<open>
  \<^verbatim>\<open>reader.onload\<close> of \<^verbatim>\<open>handleFileChange\<close>, from the text of the chosen file: the
  comments are stripped, the result is given to \<^verbatim>\<open>JSON.parse\<close>, and the shape of the
  value is checked. \<open>jsonParse\<close> is \<^verbatim>\<open>JSON.parse\<close>, a function of the language:
  \<open>Inl msg\<close> when it throws, \<open>Inr data\<close> otherwise. TypeScript stores
  \<^verbatim>\<open>data.nodes\<close> and \<^verbatim>\<open>data.links\<close> unchecked as \<^verbatim>\<open>StoryNode[]\<close> and
  \<^verbatim>\<open>StoryLink[]\<close>; \<open>asNodes\<close> and \<open>asLinks\<close> are that reading of the two arrays.
  The result is the new state and the alert shown, if any.
\<close>

definition handleFileChange ::
  "(string \<Rightarrow> string + json) \<Rightarrow> (json list \<Rightarrow> StoryNode list) \<Rightarrow> (json list \<Rightarrow> StoryLink list)
     \<Rightarrow> string \<Rightarrow> app_state \<Rightarrow> app_state \<times> import_alert option" where
  "handleFileChange jsonParse asNodes asLinks rawContent s =
     (if rawContent = [] then (s, None)
      else case jsonParse (stripComments rawContent) of
        Inl msg \<Rightarrow> (s, Some (ImportError msg))
      | Inr data \<Rightarrow>
          if truthy data \<and> isArray (get_prop data ''nodes'') \<and> isArray (get_prop data ''links'')
          then (\<lparr> nodes = asNodes (elements (get_prop data ''nodes'')),
                  links = asLinks (elements (get_prop data ''links'')),
                  selectedNodeId = None \<rparr>, None)
          else (s, Some InvalidFormat))"

section \<open>Text script export (exportUtils.ts)\<close>














section \<open>Plain objects and numbers of JavaScript\<close>

subsection \<open>Plain objects used as dictionaries\<close>

text \<open>
  \<^verbatim>\<open>incomingCount\<close>, \<^verbatim>\<open>outgoingCount\<close> and \<^verbatim>\<open>nodeLevels\<close> are plain objects
  \<^verbatim>\<open>{}\<close> indexed by node ids. Such an object has its own properties and, behind them,
  the properties of \<^verbatim>\<open>Object.prototype\<close>. A value read from it is \<^verbatim>\<open>undefined\<close>, a
  number (here always a natural number), or something else: a function or object
  inherited from the prototype, or a string made from one. \<open>Other\<close> stands for all of
  these: they are not numbers, not \<^verbatim>\<open>undefined\<close>, and truthy.
\<close>

datatype jsval = Undefined | Num nat | Other

definition objectPrototypeNames :: "string list" where
  "objectPrototypeNames =
     [''constructor'', ''__defineGetter__'', ''__defineSetter__'', ''hasOwnProperty'',
      ''__lookupGetter__'', ''__lookupSetter__'', ''isPrototypeOf'', ''propertyIsEnumerable'',
      ''toString'', ''valueOf'', ''__proto__'', ''toLocaleString'']"

text \<open>
  The object is the map of its own properties. \<^verbatim>\<open>obj[key]\<close> reads the own property,
  then the prototype. \<^verbatim>\<open>obj[key] = v\<close> makes an own property, except for the key
  \<^verbatim>\<open>__proto__\<close>: that is a setter, which ignores a number or a string.
\<close>

type_synonym js_object = "string \<rightharpoonup> jsval"

definition readKey :: "js_object \<Rightarrow> string \<Rightarrow> jsval" where
  "readKey obj key =
     (case obj key of
        Some v \<Rightarrow> v
      | None \<Rightarrow> if key \<in> set objectPrototypeNames then Other else Undefined)"

definition writeKey :: "js_object \<Rightarrow> string \<Rightarrow> jsval \<Rightarrow> js_object" where
  "writeKey obj key v = (if key = ''__proto__'' then obj else obj(key \<mapsto> v))"

text \<open>
  \<^verbatim>\<open>(v || 0) + 1\<close>: one more than a number, 1 for \<^verbatim>\<open>undefined\<close>; for a function,
  an object or a string the \<^verbatim>\<open>+\<close> is a string concatenation, and gives a string.
\<close>

fun orZeroPlusOne :: "jsval \<Rightarrow> jsval" where
  "orZeroPlusOne Undefined = Num 1"
| "orZeroPlusOne (Num n) = Num (n + 1)"
| "orZeroPlusOne Other = Other"

subsection \<open>Numbers\<close>

text \<open>
  A JavaScript number is an IEEE 754 double: a finite value, an infinity or NaN. A
  finite double is kept as the real number it stands for. Every arithmetic operation
  returns the double nearest to the exact result; \<open>fl\<close>, a parameter of every
  definition that computes, is that rounding (from a real to the real of the nearest
  double). What a theorem needs of \<open>fl\<close> is among its hypotheses. A result too large for
  a double (above \<open>10 ^ 308\<close>) is outside the model, and a zero is the positive zero: the
  code divides by a zero only where it is one.
\<close>

datatype jsnum = NaN | PosInf | NegInf | Fin real

fun jneg :: "jsnum \<Rightarrow> jsnum" where
  "jneg NaN = NaN"
| "jneg PosInf = NegInf"
| "jneg NegInf = PosInf"
| "jneg (Fin a) = Fin (- a)"

fun jadd :: "(real \<Rightarrow> real) \<Rightarrow> jsnum \<Rightarrow> jsnum \<Rightarrow> jsnum" where
  "jadd fl (Fin a) (Fin b) = Fin (fl (a + b))"
| "jadd fl NaN b = NaN"
| "jadd fl a NaN = NaN"
| "jadd fl PosInf NegInf = NaN"
| "jadd fl NegInf PosInf = NaN"
| "jadd fl (Fin a) b = b"
| "jadd fl a b = a"

definition jsub :: "(real \<Rightarrow> real) \<Rightarrow> jsnum \<Rightarrow> jsnum \<Rightarrow> jsnum" where
  "jsub fl a b = jadd fl a (jneg b)"

fun jmul :: "(real \<Rightarrow> real) \<Rightarrow> jsnum \<Rightarrow> jsnum \<Rightarrow> jsnum" where
  "jmul fl (Fin a) (Fin b) = Fin (fl (a * b))"
| "jmul fl NaN b = NaN"
| "jmul fl a NaN = NaN"
| "jmul fl (Fin a) b = (if a = 0 then NaN else if 0 < a then b else jneg b)"
| "jmul fl a (Fin b) = (if b = 0 then NaN else if 0 < b then a else jneg a)"
| "jmul fl a b = (if a = b then PosInf else NegInf)"

fun jdiv :: "(real \<Rightarrow> real) \<Rightarrow> jsnum \<Rightarrow> jsnum \<Rightarrow> jsnum" where
  "jdiv fl (Fin a) (Fin b) =
     (if b = 0 then (if a = 0 then NaN else if 0 < a then PosInf else NegInf)
      else Fin (fl (a / b)))"
| "jdiv fl NaN b = NaN"
| "jdiv fl a NaN = NaN"
| "jdiv fl (Fin a) b = Fin 0"
| "jdiv fl a (Fin b) = (if 0 \<le> b then a else jneg a)"
| "jdiv fl a b = NaN"

text \<open>\<^verbatim>\<open>a <= b\<close> and \<^verbatim>\<open>a > b\<close>: false when either side is NaN.\<close>

fun jle :: "jsnum \<Rightarrow> jsnum \<Rightarrow> bool" where
  "jle (Fin a) (Fin b) = (a \<le> b)"
| "jle NaN b = False"
| "jle a NaN = False"
| "jle NegInf b = True"
| "jle a PosInf = True"
| "jle a b = False"

definition jgt :: "jsnum \<Rightarrow> jsnum \<Rightarrow> bool" where
  "jgt a b = (a \<noteq> NaN \<and> b \<noteq> NaN \<and> \<not> jle a b)"

text \<open>\<^verbatim>\<open>Math.max\<close> and \<^verbatim>\<open>Math.min\<close>: NaN when either argument is NaN.\<close>

definition jmax :: "jsnum \<Rightarrow> jsnum \<Rightarrow> jsnum" where
  "jmax a b = (if a = NaN \<or> b = NaN then NaN else if jle a b then b else a)"

definition jmin :: "jsnum \<Rightarrow> jsnum \<Rightarrow> jsnum" where
  "jmin a b = (if a = NaN \<or> b = NaN then NaN else if jle a b then a else b)"

text \<open>
  The number a value read from a dictionary gives in \<^verbatim>\<open>(v || 0) * ...\<close>: the number
  itself, 0 for \<^verbatim>\<open>undefined\<close>, NaN for a function, an object or such a string.
\<close>

fun orZeroNumber :: "jsval \<Rightarrow> jsnum" where
  "orZeroNumber Undefined = Fin 0"
| "orZeroNumber (Num n) = Fin (real n)"
| "orZeroNumber Other = NaN"

section \<open>Topology analysis and levels (GraphVisualizer.tsx, the layout effect)\<close>

text \<open>
  Every node id gets the counter 0 (two assignments); every link then adds one at its
  target (incoming) and at its source (outgoing), also for an id that belongs to no node.
\<close>

definition zeroCounts :: "StoryNode list \<Rightarrow> js_object" where
  "zeroCounts ns = fold (\<lambda>n obj. writeKey obj (node_id n) (Num 0)) ns Map.empty"

definition incomingCount :: "StoryNode list \<Rightarrow> StoryLink list \<Rightarrow> js_object" where
  "incomingCount ns ls =
     fold (\<lambda>l obj. writeKey obj (target l) (orZeroPlusOne (readKey obj (target l)))) ls
       (zeroCounts ns)"

definition outgoingCount :: "StoryNode list \<Rightarrow> StoryLink list \<Rightarrow> js_object" where
  "outgoingCount ns ls =
     fold (\<lambda>l obj. writeKey obj (source l) (orZeroPlusOne (readKey obj (source l)))) ls
       (zeroCounts ns)"

text \<open>
  The start nodes: the nodes whose incoming counter is \<^verbatim>\<open>=== 0\<close> and, when there is none
  and the story is not empty, the first node alone.
\<close>

definition startNodes :: "StoryNode list \<Rightarrow> StoryLink list \<Rightarrow> StoryNode list" where
  "startNodes ns ls =
     (let starts = filter (\<lambda>n. readKey (incomingCount ns ls) (node_id n) = Num 0) ns
      in if length starts = 0 \<and> length ns > 0 then [hd ns] else starts)"

text \<open>
  The inner \<^verbatim>\<open>childLinks.forEach\<close>: a target not yet visited is marked visited and
  pushed at the end of the queue, one level deeper. \<open>visited\<close> is the \<^verbatim>\<open>Set\<close>, kept as
  the list of its members.
\<close>

fun visitChildren ::
  "StoryLink list \<Rightarrow> nat \<Rightarrow> string list \<times> (string \<times> nat) list
     \<Rightarrow> string list \<times> (string \<times> nat) list" where
  "visitChildren [] lev (visited, queue) = (visited, queue)"
| "visitChildren (l # childLinks) lev (visited, queue) =
     (if target l \<in> set visited then visitChildren childLinks lev (visited, queue)
      else visitChildren childLinks lev (target l # visited, queue @ [(target l, lev + 1)]))"

lemma visitChildren_measure:
  assumes "finite T" and "target ` set cs \<subseteq> T"
  shows "2 * card (T - set (fst (visitChildren cs lev (visited, queue))))
           + length (snd (visitChildren cs lev (visited, queue)))
         \<le> 2 * card (T - set visited) + length queue"
  using assms(2)
proof (induction cs arbitrary: visited queue)
  case Nil
  show ?case by simp
next
  case (Cons l cs)
  then have tT: "target l \<in> T" and rest: "target ` set cs \<subseteq> T" by auto
  show ?case
  proof (cases "target l \<in> set visited")
    case True
    with Cons.IH [OF rest, of visited queue] show ?thesis by simp
  next
    case False
    with tT have mem: "target l \<in> T - set visited" by simp
    have fin: "finite (T - set visited)" using assms(1) by simp
    have eq: "T - set (target l # visited) = (T - set visited) - {target l}" by auto
    from mem fin have "card (T - set visited) > 0" by (auto simp: card_gt_0_iff)
    with mem fin have c: "card ((T - set visited) - {target l}) + 1 = card (T - set visited)"
      by (simp add: card_Diff_singleton)
    from Cons.IH [OF rest, of "target l # visited" "queue @ [(target l, lev + 1)]"] False
    have "2 * card (T - set (fst (visitChildren (l # cs) lev (visited, queue))))
           + length (snd (visitChildren (l # cs) lev (visited, queue)))
         \<le> 2 * card (T - set (target l # visited)) + (length queue + 1)"
      by simp
    also have "\<dots> \<le> 2 * card (T - set visited) + length queue"
      unfolding eq using c by linarith
    finally show ?thesis .
  qed
qed

text \<open>
  The \<^verbatim>\<open>while (queue.length > 0)\<close> loop: \<^verbatim>\<open>queue.shift()\<close> takes the head, its level is
  written to \<^verbatim>\<open>nodeLevels\<close>, and its children are visited. The loop ends: every push
  marks one more link target as visited.
\<close>

function bfs ::
  "StoryLink list \<Rightarrow> (string \<times> nat) list \<Rightarrow> string list \<Rightarrow> js_object \<Rightarrow> js_object" where
  "bfs ls [] visited nodeLevels = nodeLevels"
| "bfs ls ((i, lev) # queue) visited nodeLevels =
     bfs ls
       (snd (visitChildren (filter (\<lambda>l. source l = i) ls) lev (visited, queue)))
       (fst (visitChildren (filter (\<lambda>l. source l = i) ls) lev (visited, queue)))
       (writeKey nodeLevels i (Num lev))"
  by pat_completeness auto
termination
proof (relation "measure (\<lambda>(ls, queue, visited, nodeLevels).
                    2 * card (target ` set ls - set visited) + length queue)", goal_cases)
  case 1
  show ?case by simp
next
  case (2 ls i lev queue visited nodeLevels)
  have "target ` set (filter (\<lambda>l. source l = i) ls) \<subseteq> target ` set ls" by auto
  from visitChildren_measure [OF _ this, of lev visited queue]
  show ?case by simp
qed

text \<open>
  The levels after the traversal from the start nodes, and the final \<^verbatim>\<open>nodeLevels\<close>:
  every node for which \<^verbatim>\<open>nodeLevels[n.id] === undefined\<close> gets level 0.
\<close>

definition bfsLevels :: "StoryNode list \<Rightarrow> StoryLink list \<Rightarrow> js_object" where
  "bfsLevels ns ls =
     bfs ls (map (\<lambda>n. (node_id n, 0)) (startNodes ns ls)) (map node_id (startNodes ns ls))
       Map.empty"

definition nodeLevels :: "StoryNode list \<Rightarrow> StoryLink list \<Rightarrow> js_object" where
  "nodeLevels ns ls =
     fold (\<lambda>n obj. if readKey obj (node_id n) = Undefined then writeKey obj (node_id n) (Num 0)
                    else obj)
       ns (bfsLevels ns ls)"


section \<open>Position cache and initial positions (GraphVisualizer.tsx, the layout effect)\<close>

text \<open>
  \<^verbatim>\<open>nodePositionsRef\<close>: a \<^verbatim>\<open>Map\<close> from node id to the last position, kept as an
  association list with one entry per key. \<^verbatim>\<open>get\<close> is \<open>map_of\<close>, \<^verbatim>\<open>set\<close> is
  \<open>AList.update\<close>, \<^verbatim>\<open>size > 0\<close> is being different from \<open>[]\<close>. \<open>None\<close> in \<open>cfx\<close>,
  \<open>cfy\<close> is \<^verbatim>\<open>null\<close>.
\<close>

record cache_entry =
  cx :: jsnum
  cy :: jsnum
  cfx :: "jsnum option"
  cfy :: "jsnum option"

type_synonym position_cache = "(string \<times> cache_entry) list"

text \<open>
  \<^verbatim>\<open>ExtendedD3Node\<close>: the story node with its layout fields. \<open>pos_x\<close>, \<open>pos_y\<close> are the
  fields \<^verbatim>\<open>x\<close>, \<^verbatim>\<open>y\<close>; \<open>level\<close> is what \<^verbatim>\<open>nodeLevels[n.id]\<close> reads.
\<close>

record D3Node = StoryNode +
  level :: jsval
  isStart :: bool
  isEnd :: bool
  pos_x :: jsnum
  pos_y :: jsnum
  fx :: "jsnum option"
  fy :: "jsnum option"

definition levelSpacing :: real where
  "levelSpacing = 200"

text \<open>
  The body of \<^verbatim>\<open>nodes.map\<close>. \<open>height\<close> is the container's \<^verbatim>\<open>clientHeight\<close>, \<open>rnd\<close> the
  value \<^verbatim>\<open>Math.random()\<close> returns in this call (a double in \<open>[0, 1)\<close>).
\<close>

definition d3Node ::
  "(real \<Rightarrow> real) \<Rightarrow> position_cache \<Rightarrow> StoryNode list \<Rightarrow> StoryLink list \<Rightarrow> real \<Rightarrow> bool \<Rightarrow> real
     \<Rightarrow> StoryNode \<Rightarrow> D3Node" where
  "d3Node fl cache ns ls height isFixed rnd n =
     (let cached = map_of cache (node_id n);
          autoX = jadd fl (jmul fl (orZeroNumber (readKey (nodeLevels ns ls) (node_id n)))
                             (Fin levelSpacing))
                    (Fin 100);
          autoY = jadd fl (jdiv fl (Fin height) (Fin 2))
                    (jmul fl (jsub fl (Fin rnd) (Fin 0.5)) (Fin 100));
          currentX = (case cached of Some c \<Rightarrow> cx c | None \<Rightarrow> autoX);
          currentY = (case cached of Some c \<Rightarrow> cy c | None \<Rightarrow> autoY)
      in \<lparr> node_id = node_id n, title = title n, content = content n,
           level = readKey (nodeLevels ns ls) (node_id n),
           isStart = (readKey (incomingCount ns ls) (node_id n) = Num 0),
           isEnd = (readKey (outgoingCount ns ls) (node_id n) = Num 0),
           pos_x = currentX,
           pos_y = currentY,
           fx = (if isFixed then Some currentX else None),
           fy = (if isFixed then Some currentY else None) \<rparr>)"

text \<open>
  \<^verbatim>\<open>d3Nodes\<close>: one call of the body per node, in order; \<open>rnd k\<close> is the result of the
  \<open>k\<close>-th call of \<^verbatim>\<open>Math.random()\<close> of this run (one call per node, cached or not).
\<close>

definition d3Nodes ::
  "(real \<Rightarrow> real) \<Rightarrow> position_cache \<Rightarrow> StoryNode list \<Rightarrow> StoryLink list \<Rightarrow> real \<Rightarrow> bool
     \<Rightarrow> (nat \<Rightarrow> real) \<Rightarrow> D3Node list" where
  "d3Nodes fl cache ns ls height isFixed rnd =
     map (\<lambda>(k, n). d3Node fl cache ns ls height isFixed (rnd k) n) (enumerate 0 ns)"

section \<open>The zoom behaviour of the d3-zoom library\<close>

text \<open>
  The component drives the viewport through \<^verbatim>\<open>d3.zoom()\<close>. The library is not part of
  the repository; the definitions of this section state the behaviour of the calls the
  component makes, as the library documents it. A zoom transform is \<open>(k, x, y)\<close>: a
  point \<open>p\<close> of the content is shown at \<open>k * p + (x, y)\<close>. The element the behaviour
  is called on keeps its current transform (the property \<^verbatim>\<open>__zoom\<close>, the identity
  when never set).
\<close>

record transform =
  tk :: jsnum
  tx :: jsnum
  ty :: jsnum

definition zoomIdentity :: transform where
  "zoomIdentity = \<lparr> tk = Fin 1, tx = Fin 0, ty = Fin 0 \<rparr>"

fun isFin :: "jsnum \<Rightarrow> bool" where
  "isFin (Fin a) = True"
| "isFin a = False"

definition finiteTransform :: "transform \<Rightarrow> bool" where
  "finiteTransform t = (isFin (tk t) \<and> isFin (tx t) \<and> isFin (ty t) \<and> tk t \<noteq> Fin 0)"

text \<open>
  A behaviour made by \<^verbatim>\<open>d3.zoom()\<close>: its scale extent and whether the \<^verbatim>\<open>"zoom"\<close>
  listener of the layout effect, which copies the transform to the content group, is
  registered on it. Listeners belong to the behaviour they were registered on.
\<close>

record zoom_behavior =
  scaleExtentMin :: jsnum
  scaleExtentMax :: jsnum
  onZoom :: bool

text \<open>\<^verbatim>\<open>d3.zoom()\<close> with nothing configured: scale extent \<open>[0, \<infinity>]\<close>, no listener.\<close>

definition d3_zoom :: zoom_behavior where
  "d3_zoom = \<lparr> scaleExtentMin = Fin 0, scaleExtentMax = PosInf, onZoom = False \<rparr>"

text \<open>
  The behaviour the layout effect builds:
  \<^verbatim>\<open>d3.zoom().scaleExtent([0.1, 4]).on("zoom", ...)\<close>. The literal \<^verbatim>\<open>0.1\<close> is the double
  nearest to \<open>1/10\<close>.
\<close>

definition effect_zoom :: "(real \<Rightarrow> real) \<Rightarrow> zoom_behavior" where
  "effect_zoom fl = \<lparr> scaleExtentMin = Fin (fl 0.1), scaleExtentMax = Fin 4, onZoom = True \<rparr>"

text \<open>\<^verbatim>\<open>Math.max(scaleExtent[0], Math.min(scaleExtent[1], k))\<close>.\<close>

definition clampScale :: "zoom_behavior \<Rightarrow> jsnum \<Rightarrow> jsnum" where
  "clampScale zb k = jmax (scaleExtentMin zb) (jmin (scaleExtentMax zb) k)"

text \<open>
  What the SVG element holds of the viewport: its zoom transform \<open>zoomT\<close>
  (\<^verbatim>\<open>__zoom\<close>), whether the content group \<^verbatim>\<open><g>\<close> exists, and the
  \<^verbatim>\<open>transform\<close> attribute of the group (\<open>None\<close>: no attribute, the content is shown
  untransformed).
\<close>

record svg_view =
  zoomT :: transform
  hasGroup :: bool
  groupT :: "transform option"

text \<open>
  \<^verbatim>\<open>zoom.transform(selection, t)\<close>, at the end of the transition it is called on: the
  element's transform becomes \<open>t\<close> (the scale extent is not applied here), and the
  listeners of this behaviour are told.
\<close>

definition zoom_transform :: "zoom_behavior \<Rightarrow> transform \<Rightarrow> svg_view \<Rightarrow> svg_view" where
  "zoom_transform zb t v =
     v \<lparr> zoomT := t, groupT := (if onZoom zb \<and> hasGroup v then Some t else groupT v) \<rparr>"

text \<open>
  \<^verbatim>\<open>zoom.scaleBy(selection, f)\<close>, at the end of the transition: the scale is multiplied
  by \<open>f\<close> and clamped to the scale extent of this behaviour, and the translation is set
  so that the centre \<open>(w / 2, h / 2)\<close> of the element stays where it is
  (\<^verbatim>\<open>p1 = t0.invert(p0)\<close>, then \<^verbatim>\<open>x = p0[0] - p1[0] * k1\<close>). The library then
  constrains the result to its translate extent, which is unbounded here; that step
  leaves a finite transform with a scale other than 0 as it is. The definition covers
  this case; \<open>None\<close> is any other case, which it does not describe.
\<close>

definition zoom_scaleBy ::
  "(real \<Rightarrow> real) \<Rightarrow> zoom_behavior \<Rightarrow> jsnum \<Rightarrow> real \<times> real \<Rightarrow> svg_view \<Rightarrow> svg_view option" where
  "zoom_scaleBy fl zb f dims v =
     (let t0 = zoomT v;
          k1 = clampScale zb (jmul fl (tk t0) f);
          p0x = jdiv fl (Fin (fst dims)) (Fin 2);
          p0y = jdiv fl (Fin (snd dims)) (Fin 2);
          p1x = jdiv fl (jsub fl p0x (tx t0)) (tk t0);
          p1y = jdiv fl (jsub fl p0y (ty t0)) (tk t0);
          t1 = \<lparr> tk = k1, tx = jsub fl p0x (jmul fl p1x k1), ty = jsub fl p0y (jmul fl p1y k1) \<rparr>
      in if finiteTransform t0 \<and> finiteTransform t1 then Some (zoom_transform zb t1 v)
         else None)"

section \<open>The visualizer (GraphVisualizer.tsx)\<close>

text \<open>
  The state the component keeps between events: the position cache
  (\<^verbatim>\<open>nodePositionsRef.current\<close>), the nodes of the running simulation (\<open>[]\<close> when none
  runs), the mode the current effect run was made with, whether its auto-centre timer is
  pending, and the viewport.
\<close>

record visualizer =
  nodePositions :: position_cache
  simNodes :: "D3Node list"
  fixedMode :: bool
  timerPending :: bool
  viewport :: svg_view

definition initial_visualizer :: visualizer where
  "initial_visualizer =
     \<lparr> nodePositions = [], simNodes = [], fixedMode = False, timerPending = False,
       viewport = \<lparr> zoomT = zoomIdentity, hasGroup = False, groupT = None \<rparr> \<rparr>"

text \<open>
  How a run of the component stops: \<^verbatim>\<open>d3.forceLink\<close> throws
  \<^verbatim>\<open>node not found: <id>\<close> inside the layout effect (React then unmounts the
  component), or the run leaves what the definitions describe.
\<close>

datatype stop = NodeNotFound string | Unmodelled

text \<open>
  \<^verbatim>\<open>d3.forceLink\<close> resolves the source, then the target, of every link in order
  against the ids of the nodes, and throws at the first id it does not find.
\<close>

fun missingEndpoint :: "string list \<Rightarrow> StoryLink list \<Rightarrow> string option" where
  "missingEndpoint ids [] = None"
| "missingEndpoint ids (l # ls) =
     (if source l \<notin> set ids then Some (source l)
      else if target l \<notin> set ids then Some (target l)
      else missingEndpoint ids ls)"

text \<open>
  \<^verbatim>\<open>d3.forceSimulation(d3Nodes)\<close> initialises the nodes it is given: a pinned
  coordinate (\<^verbatim>\<open>fx\<close>, \<^verbatim>\<open>fy\<close>) is copied to the position, and a node whose position has
  a NaN gets a position of the library's own; \<open>spot k\<close> is the one for the \<open>k\<close>-th node.
\<close>

definition forceInit :: "(nat \<Rightarrow> jsnum \<times> jsnum) \<Rightarrow> D3Node list \<Rightarrow> D3Node list" where
  "forceInit spot ds =
     map (\<lambda>(k, d).
            (let d1 = (case fx d of Some a \<Rightarrow> d \<lparr> pos_x := a \<rparr> | None \<Rightarrow> d);
                 d2 = (case fy d1 of Some a \<Rightarrow> d1 \<lparr> pos_y := a \<rparr> | None \<Rightarrow> d1)
             in if pos_x d2 = NaN \<or> pos_y d2 = NaN
                then d2 \<lparr> pos_x := fst (spot k), pos_y := snd (spot k) \<rparr>
                else d2))
         (enumerate 0 ds)"

text \<open>
  One run of the layout effect, after the cleanup of the previous run (which stops the
  simulation and clears the timer). With no nodes the effect returns at once, before the
  SVG is cleared. Otherwise the SVG is rebuilt with a fresh content group, the effect's
  zoom behaviour is attached (the element keeps its transform), the simulation is
  created on \<open>d3Nodes\<close> and the link force is added, which throws for a link with an
  unknown endpoint; then the auto-centre timer is set.
\<close>

definition layoutEffect ::
  "(real \<Rightarrow> real) \<Rightarrow> StoryNode list \<Rightarrow> StoryLink list \<Rightarrow> real \<Rightarrow> bool \<Rightarrow> (nat \<Rightarrow> real)
     \<Rightarrow> (nat \<Rightarrow> jsnum \<times> jsnum) \<Rightarrow> visualizer \<Rightarrow> stop + visualizer" where
  "layoutEffect fl ns ls height isFixed rnd spot v =
     (if length ns = 0 then Inr (v \<lparr> simNodes := [], timerPending := False \<rparr>)
      else case missingEndpoint (map node_id ns) ls of
        Some i \<Rightarrow> Inl (NodeNotFound i)
      | None \<Rightarrow>
          Inr (v \<lparr> simNodes := forceInit spot (d3Nodes fl (nodePositions v) ns ls height isFixed rnd),
                   fixedMode := isFixed,
                   timerPending := True,
                   viewport := (viewport v) \<lparr> hasGroup := True, groupT := None \<rparr> \<rparr>))"

definition cacheEntry :: "D3Node \<Rightarrow> cache_entry" where
  "cacheEntry n = \<lparr> cx = pos_x n, cy = pos_y n, cfx = fx n, cfy = fy n \<rparr>"

text \<open>
  The \<^verbatim>\<open>"tick"\<close> listener: every node of the simulation is written to the cache
  (\<^verbatim>\<open>x\<close> and \<^verbatim>\<open>y\<close> are never \<^verbatim>\<open>undefined\<close> here: the effect sets them).
\<close>

definition onTick :: "D3Node list \<Rightarrow> position_cache \<Rightarrow> position_cache" where
  "onTick ds c = fold (\<lambda>n c'. AList.update (node_id n) (cacheEntry n) c') ds c"

text \<open>
  One step of the simulation: the library moves the nodes (\<open>pos k\<close> is the new position
  of the \<open>k\<close>-th node), then the listener runs.
\<close>

definition tick :: "(nat \<Rightarrow> jsnum \<times> jsnum) \<Rightarrow> visualizer \<Rightarrow> visualizer" where
  "tick pos v =
     (let ds = map (\<lambda>(k, n). n \<lparr> pos_x := fst (pos k), pos_y := snd (pos k) \<rparr>)
                 (enumerate 0 (simNodes v))
      in v \<lparr> simNodes := ds, nodePositions := onTick ds (nodePositions v) \<rparr>)"

text \<open>The drag handlers, on the \<open>k\<close>-th node of the simulation.\<close>

definition dragstarted :: "nat \<Rightarrow> visualizer \<Rightarrow> visualizer" where
  "dragstarted k v =
     (if k < length (simNodes v)
      then v \<lparr> simNodes := (simNodes v)
                 [k := (simNodes v ! k) \<lparr> fx := Some (pos_x (simNodes v ! k)),
                                          fy := Some (pos_y (simNodes v ! k)) \<rparr>] \<rparr>
      else v)"

definition dragged :: "nat \<Rightarrow> jsnum \<times> jsnum \<Rightarrow> visualizer \<Rightarrow> visualizer" where
  "dragged k p v =
     (if k < length (simNodes v)
      then v \<lparr> simNodes := (simNodes v)
                 [k := (simNodes v ! k) \<lparr> fx := Some (fst p), fy := Some (snd p) \<rparr>] \<rparr>
      else v)"

definition dragended :: "nat \<Rightarrow> visualizer \<Rightarrow> visualizer" where
  "dragended k v =
     (if k < length (simNodes v)
      then (let d0 = simNodes v ! k;
                d = (if fixedMode v
                     then d0 \<lparr> fx := Some (pos_x d0), fy := Some (pos_y d0) \<rparr>
                     else d0 \<lparr> fx := None, fy := None \<rparr>)
            in v \<lparr> simNodes := (simNodes v) [k := d],
                   nodePositions := AList.update (node_id d) (cacheEntry d) (nodePositions v) \<rparr>)
      else v)"

text \<open>The bounding box \<^verbatim>\<open>getBBox()\<close> returns for the content group.\<close>

record bbox =
  box_x :: real
  box_y :: real
  box_w :: real
  box_h :: real

text \<open>
  The transform the auto-centre computes from the bounds of the content and the size of
  the container (\<^verbatim>\<open>clientWidth || 800\<close>, \<^verbatim>\<open>clientHeight || 600\<close>):
  \<^verbatim>\<open>d3.zoomIdentity.translate(translate[0], translate[1]).scale(scale)\<close>.
\<close>

definition fitTransform :: "(real \<Rightarrow> real) \<Rightarrow> bbox \<Rightarrow> real \<times> real \<Rightarrow> transform" where
  "fitTransform fl bounds client =
     (let fullWidth = (if fst client = 0 then 800 else fst client);
          fullHeight = (if snd client = 0 then 600 else snd client);
          scale = jdiv fl (Fin (fl 0.9))
                    (jmax (jdiv fl (Fin (box_w bounds)) (Fin fullWidth))
                          (jdiv fl (Fin (box_h bounds)) (Fin fullHeight)));
          translate0 = jsub fl (jdiv fl (Fin fullWidth) (Fin 2))
                         (jmul fl scale (jadd fl (Fin (box_x bounds))
                                           (jdiv fl (Fin (box_w bounds)) (Fin 2))));
          translate1 = jsub fl (jdiv fl (Fin fullHeight) (Fin 2))
                         (jmul fl scale (jadd fl (Fin (box_y bounds))
                                           (jdiv fl (Fin (box_h bounds)) (Fin 2))))
      in \<lparr> tk = jmul fl (Fin 1) scale,
           tx = jadd fl (Fin 0) (jmul fl (Fin 1) translate0),
           ty = jadd fl (Fin 0) (jmul fl (Fin 1) translate1) \<rparr>)"

text \<open>
  The callback of the auto-centre timer, 500 ms after the effect run that set it: it
  returns at once when the cache holds any position.
\<close>

definition autoCenter :: "(real \<Rightarrow> real) \<Rightarrow> bbox \<Rightarrow> real \<times> real \<Rightarrow> visualizer \<Rightarrow> visualizer" where
  "autoCenter fl bounds client v =
     (if length (nodePositions v) > 0 then v
      else v \<lparr> viewport :=
                 zoom_transform (effect_zoom fl) (fitTransform fl bounds client) (viewport v) \<rparr>)"

definition timerFires :: "(real \<Rightarrow> real) \<Rightarrow> bbox \<Rightarrow> real \<times> real \<Rightarrow> visualizer \<Rightarrow> visualizer" where
  "timerFires fl bounds client v =
     (if timerPending v then autoCenter fl bounds client (v \<lparr> timerPending := False \<rparr>) else v)"

text \<open>
  The three buttons. Each makes a behaviour of its own with \<^verbatim>\<open>d3.zoom()\<close>; \<open>dims\<close> is
  the size of the SVG element; the literals \<^verbatim>\<open>1.2\<close> and \<^verbatim>\<open>0.8\<close> are the nearest
  doubles. \<^verbatim>\<open>handleCenter\<close> does nothing for a story without nodes.
\<close>

definition handleZoomIn :: "(real \<Rightarrow> real) \<Rightarrow> real \<times> real \<Rightarrow> visualizer \<Rightarrow> stop + visualizer" where
  "handleZoomIn fl dims v =
     (case zoom_scaleBy fl d3_zoom (Fin (fl 1.2)) dims (viewport v) of
        Some vp \<Rightarrow> Inr (v \<lparr> viewport := vp \<rparr>)
      | None \<Rightarrow> Inl Unmodelled)"

definition handleZoomOut :: "(real \<Rightarrow> real) \<Rightarrow> real \<times> real \<Rightarrow> visualizer \<Rightarrow> stop + visualizer" where
  "handleZoomOut fl dims v =
     (case zoom_scaleBy fl d3_zoom (Fin (fl 0.8)) dims (viewport v) of
        Some vp \<Rightarrow> Inr (v \<lparr> viewport := vp \<rparr>)
      | None \<Rightarrow> Inl Unmodelled)"

definition handleCenter :: "StoryNode list \<Rightarrow> visualizer \<Rightarrow> visualizer" where
  "handleCenter ns v =
     (if length ns = 0 then v
      else v \<lparr> viewport := zoom_transform d3_zoom zoomIdentity (viewport v) \<rparr>)"

text \<open>The events of the component, and a run of them from a state.\<close>

datatype event =
    Render "StoryNode list" "StoryLink list" real bool "nat \<Rightarrow> real" "nat \<Rightarrow> jsnum \<times> jsnum"
  | Tick "nat \<Rightarrow> jsnum \<times> jsnum"
  | DragStart nat
  | Drag nat "jsnum \<times> jsnum"
  | DragEnd nat
  | TimerFires bbox "real \<times> real"
  | ZoomIn "real \<times> real"
  | ZoomOut "real \<times> real"
  | Center "StoryNode list"

fun step :: "(real \<Rightarrow> real) \<Rightarrow> event \<Rightarrow> visualizer \<Rightarrow> stop + visualizer" where
  "step fl (Render ns ls height isFixed rnd spot) v = layoutEffect fl ns ls height isFixed rnd spot v"
| "step fl (Tick pos) v = Inr (tick pos v)"
| "step fl (DragStart k) v = Inr (dragstarted k v)"
| "step fl (Drag k p) v = Inr (dragged k p v)"
| "step fl (DragEnd k) v = Inr (dragended k v)"
| "step fl (TimerFires bounds client) v = Inr (timerFires fl bounds client v)"
| "step fl (ZoomIn dims) v = handleZoomIn fl dims v"
| "step fl (ZoomOut dims) v = handleZoomOut fl dims v"
| "step fl (Center ns) v = Inr (handleCenter ns v)"

fun run :: "(real \<Rightarrow> real) \<Rightarrow> event list \<Rightarrow> visualizer \<Rightarrow> stop + visualizer" where
  "run fl [] v = Inr v"
| "run fl (e # es) v = (case step fl e v of Inl s \<Rightarrow> Inl s | Inr v' \<Rightarrow> run fl es v')"

section \<open>Image and document export (exportUtils.ts, App.tsx)\<close>

text \<open>The four ways \<^verbatim>\<open>svgToCanvas\<close> rejects, by the message of the \<^verbatim>\<open>Error\<close>.\<close>

datatype export_error =
    NoContentGroup
  | GraphEmpty
  | CanvasContextNull
  | ImageLoadFailed

text \<open>
  The canvas \<^verbatim>\<open>svgToCanvas\<close> resolves with: its pixel size and the \<^verbatim>\<open>viewBox\<close> of the
  drawn clone (x, y, width, height). \<^verbatim>\<open>canvas.width\<close> and \<^verbatim>\<open>canvas.height\<close> are
  unsigned integers: \<open>px\<close>, a parameter, is the pixel count the browser keeps when a
  number is assigned to them (the number without its fraction, for the sizes a canvas
  can have).
\<close>

record canvas =
  width_px :: nat
  height_px :: nat
  viewBox :: "real \<times> real \<times> real \<times> real"

text \<open>
  What the browser decides during the rasterisation: whether the serialised SVG loads
  as an image (\<^verbatim>\<open>onload\<close> or \<^verbatim>\<open>onerror\<close>) and whether the canvas gives a 2D context.
\<close>

record browser =
  imageLoads :: bool
  has2dContext :: bool

text \<open>
  \<^verbatim>\<open>svgToCanvas\<close>. \<open>contentGroup\<close> is the result of \<^verbatim>\<open>querySelector('g')\<close>, given by the
  bounding box \<^verbatim>\<open>getBBox()\<close> returns for it; \<open>None\<close> when the SVG has no \<^verbatim>\<open><g>\<close>.
\<close>

definition svgToCanvas ::
  "(real \<Rightarrow> real) \<Rightarrow> (real \<Rightarrow> nat) \<Rightarrow> bbox option \<Rightarrow> real \<Rightarrow> browser \<Rightarrow> export_error + canvas" where
  "svgToCanvas fl px contentGroup scale env =
     (case contentGroup of
        None \<Rightarrow> Inl NoContentGroup
      | Some bounds \<Rightarrow>
          (let padding = 50;
               x = fl (box_x bounds - padding);
               y = fl (box_y bounds - padding);
               width = fl (box_w bounds + fl (padding * 2));
               height = fl (box_h bounds + fl (padding * 2))
           in if width \<le> 0 \<or> height \<le> 0 then Inl GraphEmpty
              else if imageLoads env
                then (if has2dContext env
                      then Inr \<lparr> width_px = px (fl (width * scale)),
                                height_px = px (fl (height * scale)),
                                viewBox = (x, y, width, height) \<rparr>
                      else Inl CanvasContextNull)
                else Inl ImageLoadFailed))"

text \<open>
  The outcome of an export: a file is handed to the browser for download, or an alert
  with the error is shown and no file is made. An image file is given by its name and
  the canvas it encodes.
\<close>

datatype orientation = Landscape | Portrait

text \<open>
  The document as \<^verbatim>\<open>downloadPDF\<close> asks \<^verbatim>\<open>jsPDF\<close> for it: the options of the
  constructor (orientation, unit, page format as width and height) and the arguments of
  the one \<^verbatim>\<open>addImage\<close> call (the image, x, y, width, height).
\<close>

record pdf_document =
  pdf_orientation :: orientation
  pdf_unit :: string
  pdf_format :: "real \<times> real"
  pdf_images :: "(canvas \<times> real \<times> real \<times> real \<times> real) list"

datatype export_outcome =
    ImageSaved string canvas
  | PdfSaved string pdf_document
  | ExportAlert export_error

definition downloadImage ::
  "(real \<Rightarrow> real) \<Rightarrow> (real \<Rightarrow> nat) \<Rightarrow> bbox option \<Rightarrow> browser \<Rightarrow> string \<Rightarrow> export_outcome" where
  "downloadImage fl px contentGroup env filename =
     (case svgToCanvas fl px contentGroup 2 env of
        Inl e \<Rightarrow> ExportAlert e
      | Inr cv \<Rightarrow> ImageSaved (filename @ ''.png'') cv)"

definition downloadPDF ::
  "(real \<Rightarrow> real) \<Rightarrow> (real \<Rightarrow> nat) \<Rightarrow> bbox option \<Rightarrow> browser \<Rightarrow> string \<Rightarrow> export_outcome" where
  "downloadPDF fl px contentGroup env filename =
     (case svgToCanvas fl px contentGroup 2 env of
        Inl e \<Rightarrow> ExportAlert e
      | Inr cv \<Rightarrow>
          (let width = fl (real (width_px cv) / 2);
               height = fl (real (height_px cv) / 2)
           in PdfSaved (filename @ ''.pdf'')
                \<lparr> pdf_orientation = (if width > height then Landscape else Portrait),
                  pdf_unit = ''px'',
                  pdf_format = (width, height),
                  pdf_images = [(cv, 0, 0, width, height)] \<rparr>))"

text \<open>
  \<^verbatim>\<open>handleExportImage\<close> and \<^verbatim>\<open>handleExportPDF\<close> of \<^verbatim>\<open>App\<close>. The SVG element of the
  visualizer is in the document while the component is mounted; its first \<^verbatim>\<open><g>\<close> is
  the content group, present once the layout effect has built it. \<open>bounds\<close> is the
  bounding box the browser reports for the group as it stands.
\<close>

definition handleExportImage ::
  "(real \<Rightarrow> real) \<Rightarrow> (real \<Rightarrow> nat) \<Rightarrow> visualizer \<Rightarrow> bbox \<Rightarrow> browser \<Rightarrow> export_outcome" where
  "handleExportImage fl px v bounds env =
     downloadImage fl px (if hasGroup (viewport v) then Some bounds else None) env
       ''story-visual-map''"

definition handleExportPDF ::
  "(real \<Rightarrow> real) \<Rightarrow> (real \<Rightarrow> nat) \<Rightarrow> visualizer \<Rightarrow> bbox \<Rightarrow> browser \<Rightarrow> export_outcome" where
  "handleExportPDF fl px v bounds env =
     downloadPDF fl px (if hasGroup (viewport v) then Some bounds else None) env
       ''story-visual-map''"

section \<open>Properties of the application state\<close>

lemma count_list_filter:
  "count_list (filter P xs) a = (if P a then count_list xs a else 0)"
  by (induction xs) auto

text \<open>
  Claim C7. Deleting a node id removes every node carrying that id and nothing else
  (each other node keeps its number of occurrences, and the order is kept), removes
  every link whose source or target is that id and nothing else, and sets the selection
  to null exactly when the deleted id was the selected one; otherwise the selection
  stays as it was.
\<close>

theorem delete_node_exact:
  "(\<forall>n. count_list (nodes (handleDeleteNode nodeId s)) n =
          (if node_id n = nodeId then 0 else count_list (nodes s) n))
   \<and> subseq (nodes (handleDeleteNode nodeId s)) (nodes s)
   \<and> (\<forall>l. count_list (links (handleDeleteNode nodeId s)) l =
          (if source l = nodeId \<or> target l = nodeId then 0 else count_list (links s) l))
   \<and> subseq (links (handleDeleteNode nodeId s)) (links s)
   \<and> selectedNodeId (handleDeleteNode nodeId s) =
          (if selectedNodeId s = Some nodeId then None else selectedNodeId s)"
  by (simp add: handleDeleteNode_def count_list_filter)

theorem delete_node_exact_witness:
  "handleDeleteNode ''2''
     \<lparr> nodes = [\<lparr> node_id = ''1'', title = ''a'', content = ''x'' \<rparr>,
                \<lparr> node_id = ''2'', title = ''b'', content = ''y'' \<rparr>],
       links = [\<lparr> link_id = ''l1'', source = ''1'', target = ''2'', label = ''go'' \<rparr>,
                \<lparr> link_id = ''l2'', source = ''1'', target = ''1'', label = ''stay'' \<rparr>],
       selectedNodeId = Some ''2'' \<rparr>
   = \<lparr> nodes = [\<lparr> node_id = ''1'', title = ''a'', content = ''x'' \<rparr>],
       links = [\<lparr> link_id = ''l2'', source = ''1'', target = ''1'', label = ''stay'' \<rparr>],
       selectedNodeId = None \<rparr>
   \<and> selectedNodeId (handleDeleteNode ''1''
        \<lparr> nodes = [], links = [], selectedNodeId = Some ''2'' \<rparr>) = Some ''2''"
  using delete_node_exact [of "''1''" "\<lparr> nodes = [], links = [], selectedNodeId = Some ''2'' \<rparr>"]
  by (simp add: handleDeleteNode_def)

text \<open>
  The shape check of the import, on the value \<^verbatim>\<open>JSON.parse\<close> returns for the
  stripped text: when its \<^verbatim>\<open>nodes\<close> or \<^verbatim>\<open>links\<close> field is not an array, the format
  alert is shown and the state (nodes, links, selection) is returned as it was; when
  both are arrays, they replace the story and the selection is cleared, with no alert.
\<close>

lemma import_checks_parsed_value:
  assumes "rawContent \<noteq> []" and "jsonParse (stripComments rawContent) = Inr data"
  shows "(\<not> (isArray (get_prop data ''nodes'') \<and> isArray (get_prop data ''links'')) \<longrightarrow>
            handleFileChange jsonParse asNodes asLinks rawContent s = (s, Some InvalidFormat))
       \<and> (get_prop data ''nodes'' = Some (JArr ns) \<and> get_prop data ''links'' = Some (JArr ls) \<longrightarrow>
            handleFileChange jsonParse asNodes asLinks rawContent s =
              (\<lparr> nodes = asNodes ns, links = asLinks ls, selectedNodeId = None \<rparr>, None))"
proof (intro conjI impI)
  assume "\<not> (isArray (get_prop data ''nodes'') \<and> isArray (get_prop data ''links''))"
  with assms show "handleFileChange jsonParse asNodes asLinks rawContent s = (s, Some InvalidFormat)"
    by (auto simp: handleFileChange_def)
next
  assume a: "get_prop data ''nodes'' = Some (JArr ns) \<and> get_prop data ''links'' = Some (JArr ls)"
  then have "truthy data" by (cases data) auto
  with a assms show "handleFileChange jsonParse asNodes asLinks rawContent s =
              (\<lparr> nodes = asNodes ns, links = asLinks ls, selectedNodeId = None \<rparr>, None)"
    by (simp add: handleFileChange_def)
qed

text \<open>
  A payload whose top-level \<^verbatim>\<open>nodes\<close> is an object and which has no top-level
  \<^verbatim>\<open>links\<close>. Its first string ends in an escaped backslash; from there on the pattern
  takes the quotes the other way round, and the two \<^verbatim>\<open>/*\<close> ... \<^verbatim>\<open>*/\<close> spans, which
  lie inside strings of the payload, are dropped as comments.
\<close>

lemma strip_object_nodes_payload:
  \<open>stripComments (''{"a":"'' @ bslash @ bslash
      @ ''","b":"/*","nodes":{"c":"*/","nodes":[],"links":[],"d":"/*"},"e":"*/"}'')
   = ''{"a":"'' @ bslash @ bslash @ ''","b":"","nodes":[],"links":[],"d":""}''\<close>
  by (simp add: stripComments.simps bslash_def)

text \<open>
  A well-formed story with both arrays: the title ends in an escaped backslash and the
  content holds \<^verbatim>\<open>//\<close>. The text is cut at the \<^verbatim>\<open>//\<close>, and what is left is no JSON.
\<close>

lemma strip_wellformed_story:
  \<open>stripComments (''{"nodes":[{"id":"1","title":"a'' @ bslash @ bslash
      @ ''","content":"see http://x"}],"links":[]}'')
   = ''{"nodes":[{"id":"1","title":"a'' @ bslash @ bslash @ ''","content":"see http:''\<close>
  by (simp add: stripComments.simps bslash_def)

text \<open>
  Claim C8, at the payload above, whose \<^verbatim>\<open>nodes\<close> is an object. \<^verbatim>\<open>JSON.parse\<close> gets
  the stripped text, in which \<^verbatim>\<open>nodes\<close> and \<^verbatim>\<open>links\<close> are empty arrays (the
  hypothesis states the value it returns for that text). The import is accepted: the
  story is replaced by an empty one and the selection is cleared, with no alert.
\<close>

theorem import_accepts_object_nodes:
  assumes \<open>jsonParse (''{"a":"'' @ bslash @ bslash @ ''","b":"","nodes":[],"links":[],"d":""}'')
             = Inr (JObj [(''a'', JStr bslash), (''b'', JStr []), (''nodes'', JArr []),
                          (''links'', JArr []), (''d'', JStr [])])\<close>
  shows \<open>handleFileChange jsonParse asNodes asLinks
           (''{"a":"'' @ bslash @ bslash
             @ ''","b":"/*","nodes":{"c":"*/","nodes":[],"links":[],"d":"/*"},"e":"*/"}'') s
         = (\<lparr> nodes = asNodes [], links = asLinks [], selectedNodeId = None \<rparr>, None)\<close>
proof -
  have ne: \<open>''{"a":"'' @ bslash @ bslash
      @ ''","b":"/*","nodes":{"c":"*/","nodes":[],"links":[],"d":"/*"},"e":"*/"}'' \<noteq> []\<close>
    by simp
  show ?thesis
    unfolding handleFileChange_def strip_object_nodes_payload
    using ne assms by simp
qed

theorem import_accepts_object_nodes_witness:
  \<open>handleFileChange
     (\<lambda>t. if t = ''{"a":"'' @ bslash @ bslash @ ''","b":"","nodes":[],"links":[],"d":""}''
          then Inr (JObj [(''a'', JStr bslash), (''b'', JStr []), (''nodes'', JArr []),
                          (''links'', JArr []), (''d'', JStr [])])
          else Inl ''SyntaxError'')
     (map (\<lambda>j. \<lparr> node_id = ''n'', title = [], content = [] \<rparr>))
     (map (\<lambda>j. \<lparr> link_id = ''l'', source = [], target = [], label = [] \<rparr>))
     (''{"a":"'' @ bslash @ bslash
        @ ''","b":"/*","nodes":{"c":"*/","nodes":[],"links":[],"d":"/*"},"e":"*/"}'')
     \<lparr> nodes = [\<lparr> node_id = ''1'', title = ''a'', content = ''x'' \<rparr>], links = [],
       selectedNodeId = Some ''1'' \<rparr>
   = (\<lparr> nodes = [], links = [], selectedNodeId = None \<rparr>, None)\<close>
  using import_accepts_object_nodes [where
      jsonParse = \<open>\<lambda>t. if t = ''{"a":"'' @ bslash @ bslash
                               @ ''","b":"","nodes":[],"links":[],"d":""}''
          then Inr (JObj [(''a'', JStr bslash), (''b'', JStr []), (''nodes'', JArr []),
                          (''links'', JArr []), (''d'', JStr [])])
          else Inl ''SyntaxError''\<close>
      and asNodes = \<open>map (\<lambda>j. \<lparr> node_id = ''n'', title = [], content = [] \<rparr>)\<close>
      and asLinks = \<open>map (\<lambda>j. \<lparr> link_id = ''l'', source = [], target = [], label = [] \<rparr>)\<close>
      and s = \<open>\<lparr> nodes = [\<lparr> node_id = ''1'', title = ''a'', content = ''x'' \<rparr>], links = [],
                 selectedNodeId = Some ''1'' \<rparr>\<close>]
  by simp

lemma ids_create:
  "map node_id (nodes (handleCreateNode now t c s)) = map node_id (nodes s) @ [toString now]"
  by (simp add: handleCreateNode_def Let_def)

lemma ids_createNodes:
  "map node_id (nodes (createNodes cs s)) = map node_id (nodes s) @ map (\<lambda>c. toString (fst c)) cs"
  by (induction cs s rule: createNodes.induct) (simp_all add: ids_create)

text \<open>
  Claim C9, as the code has it. The id of a new node is the decimal string of the clock
  reading, and nothing compares it with the ids already present. A run of creations
  keeps the ids of the story pairwise different when the story's ids were so, the
  readings give pairwise different strings, and none of these strings is already an id
  of the story. An update replaces a node by one with the same id: the list of ids is
  unchanged.
\<close>

theorem ids_unique_when_fresh:
  assumes "distinct (map node_id (nodes s))"
      and "distinct (map (\<lambda>c. toString (fst c)) cs)"
      and "\<forall>c \<in> set cs. toString (fst c) \<notin> set (map node_id (nodes s))"
  shows "distinct (map node_id (nodes (createNodes cs s)))
       \<and> map node_id (nodes (handleUpdateNode u s)) = map node_id (nodes s)"
proof
  have "set (map node_id (nodes s)) \<inter> set (map (\<lambda>c. toString (fst c)) cs) = {}"
  proof (rule ccontr)
    assume "set (map node_id (nodes s)) \<inter> set (map (\<lambda>c. toString (fst c)) cs) \<noteq> {}"
    then obtain i where i: "i \<in> set (map node_id (nodes s))"
        and "i \<in> set (map (\<lambda>c. toString (fst c)) cs)" by blast
    then obtain c where "c \<in> set cs" and "i = toString (fst c)" by auto
    with assms(3) i show False by blast
  qed
  with assms(1,2) show "distinct (map node_id (nodes (createNodes cs s)))"
    by (simp add: ids_createNodes)
next
  show "map node_id (nodes (handleUpdateNode u s)) = map node_id (nodes s)"
    by (simp add: handleUpdateNode_def)
qed

theorem ids_unique_when_fresh_witness:
  "distinct (map node_id (nodes (createNodes
       [(1762012800000, ''a'', []), (1762012800001, ''b'', [])]
       \<lparr> nodes = [\<lparr> node_id = ''1'', title = ''t'', content = ''c'' \<rparr>], links = [],
         selectedNodeId = None \<rparr>)))
   \<and> map node_id (nodes (handleUpdateNode \<lparr> node_id = ''1'', title = ''new'', content = ''c'' \<rparr>
       \<lparr> nodes = [\<lparr> node_id = ''1'', title = ''t'', content = ''c'' \<rparr>], links = [],
         selectedNodeId = None \<rparr>)) = [''1'']"
  using ids_unique_when_fresh [of
      "\<lparr> nodes = [\<lparr> node_id = ''1'', title = ''t'', content = ''c'' \<rparr>], links = [],
         selectedNodeId = None \<rparr>"
      "[(1762012800000, ''a'', []), (1762012800001, ''b'', [])]"
      "\<lparr> node_id = ''1'', title = ''new'', content = ''c'' \<rparr>"]
  by (simp add: toString.simps)

text \<open>
  Two creations at the same clock reading (the same millisecond) give two nodes with the
  same id.
\<close>

theorem ids_unique_counterexample:
  "\<not> distinct (map node_id (nodes (createNodes
       [(1762012800000, ''a'', []), (1762012800000, ''b'', [])]
       \<lparr> nodes = [], links = [], selectedNodeId = None \<rparr>)))"
  by (simp add: ids_create)

text \<open>An update never changes the id of a node, whatever the story.\<close>

lemma update_keeps_ids:
  "map node_id (nodes (handleUpdateNode u s)) = map node_id (nodes s)"
  by (simp add: handleUpdateNode_def)

section \<open>Properties of the text script\<close>












section \<open>Properties of the topology analysis\<close>













section \<open>Properties of the initial positions\<close>






section \<open>Properties of the viewport and of the auto-centre\<close>

lemma enumerate_not_Nil: "xs \<noteq> [] \<Longrightarrow> enumerate n xs \<noteq> []"
  by (cases xs) simp_all

lemma update_not_Nil: "AList.update k e c \<noteq> []"
  by (cases c) (auto split: if_splits)

lemma onTick_not_Nil: "ds \<noteq> [] \<or> c \<noteq> [] \<Longrightarrow> onTick ds c \<noteq> []"
proof (induction ds arbitrary: c)
  case Nil
  then show ?case by (simp add: onTick_def)
next
  case (Cons d ds)
  have "onTick (d # ds) c = onTick ds (AList.update (node_id d) (cacheEntry d) c)"
    by (simp add: onTick_def)
  with Cons.IH [of "AList.update (node_id d) (cacheEntry d) c"] update_not_Nil
  show ?case by simp
qed

text \<open>No event empties the position cache.\<close>

lemma cache_stays_filled:
  assumes "nodePositions v \<noteq> []" and "step fl e v = Inr v'"
  shows "nodePositions v' \<noteq> []"
proof (cases e)
  case (Render ns ls height isFixed rnd spot)
  with assms show ?thesis
    by (auto simp: layoutEffect_def split: if_splits option.splits)
next
  case (Tick pos)
  with assms show ?thesis by (auto simp: tick_def Let_def onTick_not_Nil split: if_splits)
next
  case (DragStart k)
  with assms show ?thesis by (auto simp: dragstarted_def split: if_splits)
next
  case (Drag k p)
  with assms show ?thesis by (auto simp: dragged_def split: if_splits)
next
  case (DragEnd k)
  with assms show ?thesis by (auto simp: dragended_def Let_def update_not_Nil split: if_splits)
next
  case (TimerFires bounds client)
  with assms show ?thesis by (auto simp: timerFires_def autoCenter_def split: if_splits)
next
  case (ZoomIn dims)
  with assms show ?thesis by (auto simp: handleZoomIn_def split: option.splits)
next
  case (ZoomOut dims)
  with assms show ?thesis by (auto simp: handleZoomOut_def split: option.splits)
next
  case (Center ns)
  with assms show ?thesis by (auto simp: handleCenter_def split: if_splits)
qed

lemma cache_stays_filled_run:
  "nodePositions v \<noteq> [] \<Longrightarrow> run fl es v = Inr v' \<Longrightarrow> nodePositions v' \<noteq> []"
proof (induction es arbitrary: v)
  case Nil
  then show ?case by simp
next
  case (Cons e es)
  from Cons.prems(2) obtain v1 where s: "step fl e v = Inr v1" and r: "run fl es v1 = Inr v'"
    by (auto split: sum.splits)
  from Cons.prems(1) s have "nodePositions v1 \<noteq> []" by (rule cache_stays_filled)
  from Cons.IH [OF this r] show ?case .
qed

text \<open>
  Once a position is cached, the timer callback never changes the viewport again,
  whatever happens in between.
\<close>

lemma no_auto_center_once_cached:
  assumes "nodePositions v \<noteq> []" and "run fl es v = Inr v'"
  shows "viewport (timerFires fl bounds client v') = viewport v'"
proof -
  from assms have "nodePositions v' \<noteq> []" by (rule cache_stays_filled_run)
  then show ?thesis by (simp add: timerFires_def autoCenter_def)
qed

text \<open>With an empty cache the timer callback sets the fitted transform.\<close>

lemma autoCenter_empty_cache:
  "nodePositions v = [] \<Longrightarrow>
     zoomT (viewport (autoCenter fl bounds client v)) = fitTransform fl bounds client"
  by (simp add: autoCenter_def zoom_transform_def)

text \<open>A tick of a running simulation fills the cache.\<close>

lemma tick_fills_cache:
  "simNodes v \<noteq> [] \<Longrightarrow> nodePositions (tick pos v) \<noteq> []"
  by (simp add: tick_def Let_def onTick_not_Nil enumerate_not_Nil)

lemma layoutEffect_starts:
  assumes "ns \<noteq> []" and "missingEndpoint (map node_id ns) ls = None"
  shows "\<exists>v'. layoutEffect fl ns ls height isFixed rnd spot v = Inr v'
           \<and> simNodes v' \<noteq> [] \<and> timerPending v'
           \<and> nodePositions v' = nodePositions v
           \<and> viewport v' = (viewport v) \<lparr> hasGroup := True, groupT := None \<rparr>"
  using assms by (simp add: layoutEffect_def d3Nodes_def forceInit_def enumerate_not_Nil)

text \<open>
  Claim C1, at the first load and at any later layout of a story with nodes (and links
  between nodes of the story). The effect runs, the simulation ticks once (it ticks on
  every animation frame), and then the timer set for 500 ms fires: the cache is no longer
  empty, whatever it was before, so the callback returns and the viewport is the one the
  effect left: the transform of the element is the one from before the effect, and the
  new content group has no transform. The auto-centre has not run.
\<close>

theorem auto_center_skipped_after_first_tick:
  assumes "ns \<noteq> []" and "missingEndpoint (map node_id ns) ls = None"
  shows "\<exists>v'. run fl
      [Render ns ls height isFixed rnd spot, Tick pos, TimerFires bounds client] v = Inr v'
     \<and> viewport v' = (viewport v) \<lparr> hasGroup := True, groupT := None \<rparr>
     \<and> nodePositions v' \<noteq> []"
proof -
  obtain v1 where
    e: "layoutEffect fl ns ls height isFixed rnd spot v = Inr v1"
    and s: "simNodes v1 \<noteq> []" and t: "timerPending v1"
    and vp: "viewport v1 = (viewport v) \<lparr> hasGroup := True, groupT := None \<rparr>"
    using layoutEffect_starts [OF assms, of fl height isFixed rnd spot v]
    by auto
  let ?v2 = "tick pos v1"
  let ?v3 = "timerFires fl bounds client ?v2"
  from s have c: "nodePositions ?v2 \<noteq> []" by (rule tick_fills_cache)
  have vp2: "viewport ?v2 = viewport v1" by (simp add: tick_def Let_def)
  from c have vp3: "viewport ?v3 = viewport ?v2" and c3: "nodePositions ?v3 \<noteq> []"
    by (simp_all add: timerFires_def autoCenter_def)
  have r: "run fl [Render ns ls height isFixed rnd spot, Tick pos, TimerFires bounds client] v
             = Inr ?v3"
    by (simp add: e)
  have "viewport ?v3 = (viewport v) \<lparr> hasGroup := True, groupT := None \<rparr>"
    by (simp add: vp3 vp2 vp)
  with r c3 show ?thesis by blast
qed

text \<open>
  The first load of a story of one node, in a container of 800 by 600: after the tick
  and the timer the transform is the identity, where the fitted transform for the
  bounds of the node would have the scale 0.9 / (56 / 600).
\<close>

theorem auto_center_skipped_witness:
  "\<exists>v. run (\<lambda>x. x)
      [Render [\<lparr> node_id = ''1'', title = ''A'', content = [] \<rparr>] [] 600 False (\<lambda>k. 1 / 2)
         (\<lambda>k. (Fin 0, Fin 0)),
       Tick (\<lambda>k. (Fin 100, Fin 300)),
       TimerFires \<lparr> box_x = 76, box_y = 268, box_w = 48, box_h = 56 \<rparr> (800, 600)]
      initial_visualizer = Inr v
     \<and> viewport v = \<lparr> zoomT = zoomIdentity, hasGroup = True, groupT = None \<rparr>
     \<and> nodePositions v \<noteq> []"
  using auto_center_skipped_after_first_tick
    [where ns = "[\<lparr> node_id = ''1'', title = ''A'', content = [] \<rparr>]" and ls = "[]"
       and fl = "\<lambda>x. x" and height = 600 and isFixed = False and rnd = "\<lambda>k. 1 / 2"
       and spot = "\<lambda>k. (Fin 0, Fin 0)" and pos = "\<lambda>k. (Fin 100, Fin 300)"
       and bounds = "\<lparr> box_x = 76, box_y = 268, box_w = 48, box_h = 56 \<rparr>"
       and client = "(800, 600)" and v = initial_visualizer]
  by (simp add: initial_visualizer_def)

text \<open>
  One click on zoom-in, from a finite transform with a scale of at least 1, under a
  rounding with relative error at most \<open>2 ^ -53\<close> on numbers from 1 on: the scale grows
  by a factor of at least 1.19, with no upper bound applied, and the content group is
  not touched.
\<close>

lemma zoomIn_step:
  fixes fl :: "real \<Rightarrow> real"
  assumes u: "\<forall>x. 1 \<le> x \<longrightarrow> x * (1 - 1 / 2 ^ 53) \<le> fl x"
      and z: "zoomT (viewport v) = \<lparr> tk = Fin k0, tx = Fin x0, ty = Fin y0 \<rparr>"
      and k0: "1 \<le> k0"
  shows "\<exists>v' k x y. handleZoomIn fl dims v = Inr v'
           \<and> zoomT (viewport v') = \<lparr> tk = Fin k, tx = Fin x, ty = Fin y \<rparr>
           \<and> 119 / 100 * k0 \<le> k
           \<and> groupT (viewport v') = groupT (viewport v)
           \<and> hasGroup (viewport v') = hasGroup (viewport v)"
proof -
  let ?d = "1 - 1 / 2 ^ 53 :: real"
  let ?c = "fl (12 / 10)"
  have dpos: "0 \<le> ?d" by simp
  have c: "12 / 10 * ?d \<le> ?c"
    using u [rule_format, of "12 / 10"] by simp
  have num: "(119 / 100 :: real) \<le> 12 / 10 * ?d * ?d" by simp
  have c1: "1 \<le> ?c"
  proof -
    have "(1 :: real) \<le> 12 / 10 * ?d" by simp
    with c show ?thesis by linarith
  qed
  from k0 c1 have kc1: "1 \<le> k0 * ?c"
    using mult_mono [of 1 k0 1 ?c] by simp
  then have f: "k0 * ?c * ?d \<le> fl (k0 * ?c)"
    using u [rule_format, of "k0 * ?c"] by simp
  have "k0 * (12 / 10 * ?d) \<le> k0 * ?c"
    using c k0 by (intro mult_left_mono) simp_all
  then have "k0 * (12 / 10 * ?d) * ?d \<le> k0 * ?c * ?d"
    using dpos by (intro mult_right_mono) simp_all
  with f have lower: "k0 * (12 / 10 * ?d * ?d) \<le> fl (k0 * ?c)"
    by (simp add: mult.assoc)
  have "119 / 100 * k0 \<le> k0 * (12 / 10 * ?d * ?d)"
    using num k0 mult_left_mono [of "119 / 100" "12 / 10 * ?d * ?d" k0] by (simp add: mult.commute)
  with lower have grow: "119 / 100 * k0 \<le> fl (k0 * ?c)" by linarith
  with k0 have pos: "0 < fl (k0 * ?c)" by linarith
  from k0 have k0n: "k0 \<noteq> 0" by linarith
  have k1: "clampScale d3_zoom (jmul fl (Fin k0) (Fin ?c)) = Fin (fl (k0 * ?c))"
    using pos by (simp add: clampScale_def d3_zoom_def jmax_def jmin_def)
  show ?thesis
    unfolding handleZoomIn_def zoom_scaleBy_def Let_def z
    using k1 pos k0n grow
    by (simp add: finiteTransform_def zoom_transform_def jsub_def d3_zoom_def)
qed

lemma zoomIn_run:
  fixes fl :: "real \<Rightarrow> real"
  assumes u: "\<forall>x. 1 \<le> x \<longrightarrow> x * (1 - 1 / 2 ^ 53) \<le> fl x"
  shows "zoomT (viewport v) = \<lparr> tk = Fin k0, tx = Fin x0, ty = Fin y0 \<rparr> \<Longrightarrow> 1 \<le> k0 \<Longrightarrow>
         \<exists>v' k x y. run fl (replicate n (ZoomIn dims)) v = Inr v'
           \<and> zoomT (viewport v') = \<lparr> tk = Fin k, tx = Fin x, ty = Fin y \<rparr>
           \<and> (119 / 100) ^ n * k0 \<le> k
           \<and> groupT (viewport v') = groupT (viewport v)
           \<and> hasGroup (viewport v') = hasGroup (viewport v)"
proof (induction n arbitrary: v k0 x0 y0)
  case 0
  then show ?case by simp
next
  case (Suc n)
  from zoomIn_step [OF u Suc.prems(1) Suc.prems(2), of dims]
  obtain v1 k1 x1 y1 where
    s: "handleZoomIn fl dims v = Inr v1"
    and z1: "zoomT (viewport v1) = \<lparr> tk = Fin k1, tx = Fin x1, ty = Fin y1 \<rparr>"
    and g1: "119 / 100 * k0 \<le> k1"
    and same: "groupT (viewport v1) = groupT (viewport v)"
              "hasGroup (viewport v1) = hasGroup (viewport v)"
    by blast
  from g1 Suc.prems(2) have k1: "1 \<le> k1" by linarith
  from Suc.IH [OF z1 k1]
  obtain v' k x y where
    r: "run fl (replicate n (ZoomIn dims)) v1 = Inr v'"
    and z': "zoomT (viewport v') = \<lparr> tk = Fin k, tx = Fin x, ty = Fin y \<rparr>"
    and g: "(119 / 100) ^ n * k1 \<le> k"
    and same': "groupT (viewport v') = groupT (viewport v1)"
               "hasGroup (viewport v') = hasGroup (viewport v1)"
    by blast
  have "(119 / 100) ^ Suc n * k0 = (119 / 100) ^ n * (119 / 100 * k0)" by simp
  also have "\<dots> \<le> (119 / 100) ^ n * k1"
    using g1 by (intro mult_left_mono) simp_all
  also have "\<dots> \<le> k" by (rule g)
  finally have "(119 / 100) ^ Suc n * k0 \<le> k" .
  moreover have "run fl (replicate (Suc n) (ZoomIn dims)) v = Inr v'"
    using s r by simp
  ultimately show ?case using z' same same' by auto
qed

text \<open>
  Claim C3, at eight clicks on zoom-in. After the effect has run on a story of one node,
  eight clicks on the zoom-in button bring the scale of the viewport above 4, the upper
  bound of the effect's scale extent (the scale is then about 4.2998); the transform
  attribute of the content group is not touched by the clicks. The hypothesis is the
  relative error bound of double arithmetic, for numbers from 1 on.
\<close>

theorem zoom_in_leaves_scale_extent:
  fixes fl :: "real \<Rightarrow> real"
  assumes "\<forall>x. 1 \<le> x \<longrightarrow> x * (1 - 1 / 2 ^ 53) \<le> fl x"
  shows "\<exists>v k. run fl
      [Render [\<lparr> node_id = ''1'', title = ''A'', content = [] \<rparr>] [] 600 False (\<lambda>k. 1 / 2)
         (\<lambda>k. (Fin 0, Fin 0)),
       ZoomIn (800, 600), ZoomIn (800, 600), ZoomIn (800, 600), ZoomIn (800, 600),
       ZoomIn (800, 600), ZoomIn (800, 600), ZoomIn (800, 600), ZoomIn (800, 600)]
      initial_visualizer = Inr v
     \<and> tk (zoomT (viewport v)) = Fin k \<and> 4 < k
     \<and> groupT (viewport v) = None"
proof -
  obtain v1 where
    e: "layoutEffect fl [\<lparr> node_id = ''1'', title = ''A'', content = [] \<rparr>] [] 600 False
          (\<lambda>k. 1 / 2) (\<lambda>k. (Fin 0, Fin 0)) initial_visualizer = Inr v1"
    and vp: "viewport v1 = (viewport initial_visualizer) \<lparr> hasGroup := True, groupT := None \<rparr>"
    using layoutEffect_starts [of "[\<lparr> node_id = ''1'', title = ''A'', content = [] \<rparr>]" "[]"
        fl 600 False "\<lambda>k. 1 / 2" "\<lambda>k. (Fin 0, Fin 0)" initial_visualizer]
    by auto
  have z1: "zoomT (viewport v1) = \<lparr> tk = Fin 1, tx = Fin 0, ty = Fin 0 \<rparr>"
    and g1: "groupT (viewport v1) = None"
    by (simp_all add: vp initial_visualizer_def zoomIdentity_def)
  from zoomIn_run [OF assms z1, of 8 "(800, 600)"]
  obtain v k x y where
    r: "run fl (replicate 8 (ZoomIn (800, 600))) v1 = Inr v"
    and z: "zoomT (viewport v) = \<lparr> tk = Fin k, tx = Fin x, ty = Fin y \<rparr>"
    and g: "(119 / 100) ^ 8 * 1 \<le> k"
    and same: "groupT (viewport v) = groupT (viewport v1)"
    by auto
  have "(4 :: real) < (119 / 100) ^ 8" by (simp add: power_numeral_reduce)
  with g have k4: "4 < k" by simp
  have rep: "replicate 8 (ZoomIn (800, 600)) =
      [ZoomIn (800, 600), ZoomIn (800, 600), ZoomIn (800, 600), ZoomIn (800, 600),
       ZoomIn (800, 600), ZoomIn (800, 600), ZoomIn (800, 600), ZoomIn (800, 600)]"
    by (simp add: eval_nat_numeral)
  have "run fl
      [Render [\<lparr> node_id = ''1'', title = ''A'', content = [] \<rparr>] [] 600 False (\<lambda>k. 1 / 2)
         (\<lambda>k. (Fin 0, Fin 0)),
       ZoomIn (800, 600), ZoomIn (800, 600), ZoomIn (800, 600), ZoomIn (800, 600),
       ZoomIn (800, 600), ZoomIn (800, 600), ZoomIn (800, 600), ZoomIn (800, 600)]
      initial_visualizer = Inr v"
    using r e unfolding rep by simp
  moreover from z have "tk (zoomT (viewport v)) = Fin k" by simp
  ultimately show ?thesis using k4 same g1 by auto
qed

text \<open>
  The same run with every operation exact (the rounding taken as the identity, which
  has no error at all).
\<close>

theorem zoom_in_leaves_scale_extent_witness:
  "\<exists>v k. run (\<lambda>x. x)
      [Render [\<lparr> node_id = ''1'', title = ''A'', content = [] \<rparr>] [] 600 False (\<lambda>k. 1 / 2)
         (\<lambda>k. (Fin 0, Fin 0)),
       ZoomIn (800, 600), ZoomIn (800, 600), ZoomIn (800, 600), ZoomIn (800, 600),
       ZoomIn (800, 600), ZoomIn (800, 600), ZoomIn (800, 600), ZoomIn (800, 600)]
      initial_visualizer = Inr v
     \<and> tk (zoomT (viewport v)) = Fin k \<and> 4 < k
     \<and> groupT (viewport v) = None"
proof (rule zoom_in_leaves_scale_extent)
  show "\<forall>x :: real. 1 \<le> x \<longrightarrow> x * (1 - 1 / 2 ^ 53) \<le> (\<lambda>x. x) x"
  proof (intro allI impI)
    fix x :: real
    assume "1 \<le> x"
    then have "x * (1 - 1 / 2 ^ 53) \<le> x * 1"
      by (intro mult_left_mono) simp_all
    then show "x * (1 - 1 / 2 ^ 53) \<le> (\<lambda>x. x) x" by simp
  qed
qed

section \<open>Properties of the image and document export\<close>

text \<open>
  The size test of \<^verbatim>\<open>svgToCanvas\<close> comes after the padding: for a bounding box (its
  width and height are never negative) the padded sizes are at least 100, and the
  error for an empty graph cannot occur.
\<close>

lemma padded_size_positive:
  fixes fl :: "real \<Rightarrow> real"
  assumes "\<forall>a b. a \<le> b \<longrightarrow> fl a \<le> fl b" and "fl 100 = 100" and "0 \<le> w"
  shows "100 \<le> fl (w + 100)"
proof -
  from assms(3) have "(100 :: real) \<le> w + 100" by simp
  with assms(1) have "fl 100 \<le> fl (w + 100)" by blast
  with assms(2) show ?thesis by simp
qed

lemma svgToCanvas_of_group:
  fixes fl :: "real \<Rightarrow> real"
  assumes "\<forall>a b. a \<le> b \<longrightarrow> fl a \<le> fl b" and "fl 100 = 100"
      and "0 \<le> box_w bounds" and "0 \<le> box_h bounds"
      and "imageLoads env" and "has2dContext env"
  shows "\<exists>cv. svgToCanvas fl px (Some bounds) scale env = Inr cv"
proof -
  have "100 \<le> fl (box_w bounds + 100)"
    using assms(1,2,3) by (rule padded_size_positive)
  moreover have "100 \<le> fl (box_h bounds + 100)"
    using assms(1,2,4) by (rule padded_size_positive)
  ultimately have "\<not> (fl (box_w bounds + 100) \<le> 0 \<or> fl (box_h bounds + 100) \<le> 0)"
    by linarith
  with assms(2,5,6) show ?thesis
    by (simp add: svgToCanvas_def Let_def)
qed

lemma layoutEffect_no_nodes:
  "layoutEffect fl [] ls height isFixed rnd spot v
     = Inr (v \<lparr> simNodes := [], timerPending := False \<rparr>)"
  by (simp add: layoutEffect_def)

text \<open>The content group, once built, stays in the SVG whatever happens.\<close>

lemma group_stays:
  assumes "hasGroup (viewport v)" and "step fl e v = Inr v'"
  shows "hasGroup (viewport v')"
proof (cases e)
  case (Render ns ls height isFixed rnd spot)
  with assms show ?thesis
    by (auto simp: layoutEffect_def split: if_splits option.splits)
next
  case (Tick pos)
  with assms show ?thesis by (auto simp: tick_def Let_def)
next
  case (DragStart k)
  with assms show ?thesis by (auto simp: dragstarted_def split: if_splits)
next
  case (Drag k p)
  with assms show ?thesis by (auto simp: dragged_def split: if_splits)
next
  case (DragEnd k)
  with assms show ?thesis by (auto simp: dragended_def Let_def split: if_splits)
next
  case (TimerFires bounds client)
  with assms show ?thesis
    by (auto simp: timerFires_def autoCenter_def zoom_transform_def split: if_splits)
next
  case (ZoomIn dims)
  with assms show ?thesis
    by (auto simp: handleZoomIn_def zoom_scaleBy_def Let_def zoom_transform_def
        split: option.splits if_splits)
next
  case (ZoomOut dims)
  with assms show ?thesis
    by (auto simp: handleZoomOut_def zoom_scaleBy_def Let_def zoom_transform_def
        split: option.splits if_splits)
next
  case (Center ns)
  with assms show ?thesis by (auto simp: handleCenter_def zoom_transform_def split: if_splits)
qed

text \<open>
  Before the layout effect has ever built the content group, both exports stop with the
  error for the missing group. The application starts with a story that has nodes, so
  this is not the state a story with no nodes is exported from.
\<close>

lemma export_before_any_layout:
  "handleExportImage fl px initial_visualizer bounds env = ExportAlert NoContentGroup"
  "handleExportPDF fl px initial_visualizer bounds env = ExportAlert NoContentGroup"
  by (simp_all add: handleExportImage_def handleExportPDF_def downloadImage_def downloadPDF_def
      svgToCanvas_def initial_visualizer_def)

text \<open>
  Claim C2, at a story that has lost all its nodes. The effect has run on a story with
  nodes (and links between nodes of the story); when the story has no nodes left it
  runs again and returns before it clears the SVG, so the content group of the former
  nodes is still there. Both exports then go through and hand a file to the browser,
  whatever bounding box the browser reports for the group. The hypotheses on the
  rounding hold for doubles (it is monotone, and 100 is a double).
\<close>

theorem export_of_emptied_story_gives_file:
  fixes fl :: "real \<Rightarrow> real"
  assumes "\<forall>a b. a \<le> b \<longrightarrow> fl a \<le> fl b" and "fl 100 = 100"
      and "0 \<le> box_w bounds" and "0 \<le> box_h bounds"
      and "imageLoads env" and "has2dContext env"
      and "ns \<noteq> []" and "missingEndpoint (map node_id ns) ls = None"
  shows "\<exists>v' cv doc.
      run fl [Render ns ls height isFixed rnd spot, Render [] ls' height' isFixed' rnd' spot'] v
        = Inr v'
    \<and> handleExportImage fl px v' bounds env = ImageSaved ''story-visual-map.png'' cv
    \<and> handleExportPDF fl px v' bounds env = PdfSaved ''story-visual-map.pdf'' doc"
proof -
  obtain v1 where
    e: "layoutEffect fl ns ls height isFixed rnd spot v = Inr v1"
    and vp: "viewport v1 = (viewport v) \<lparr> hasGroup := True, groupT := None \<rparr>"
    using layoutEffect_starts [OF assms(7,8), of fl height isFixed rnd spot v]
    by auto
  let ?v2 = "v1 \<lparr> simNodes := [], timerPending := False \<rparr>"
  have r: "run fl [Render ns ls height isFixed rnd spot,
                   Render [] ls' height' isFixed' rnd' spot'] v = Inr ?v2"
    by (simp add: e layoutEffect_no_nodes)
  have g: "hasGroup (viewport ?v2)" by (simp add: vp)
  from svgToCanvas_of_group [OF assms(1-6), of px 2]
  obtain cv where cv: "svgToCanvas fl px (Some bounds) 2 env = Inr cv" by blast
  have i: "handleExportImage fl px ?v2 bounds env = ImageSaved ''story-visual-map.png'' cv"
    using g cv by (simp add: handleExportImage_def downloadImage_def)
  have "\<exists>doc. handleExportPDF fl px ?v2 bounds env = PdfSaved ''story-visual-map.pdf'' doc"
    using g cv by (simp add: handleExportPDF_def downloadPDF_def Let_def)
  with r i show ?thesis by blast
qed

text \<open>
  The story of one node, shown from the start and then deleted, where the group has
  the box of the deleted node's circle and label and all numbers are doubles (no
  rounding): the image is 296 by 312 pixels.
\<close>

theorem export_of_emptied_story_witness:
  "\<exists>v doc.
      run (\<lambda>x. x)
        [Render [\<lparr> node_id = ''1'', title = ''A'', content = [] \<rparr>] [] 600 False (\<lambda>k. 1 / 2)
           (\<lambda>k. (Fin 0, Fin 0)),
         Render [] [] 600 False (\<lambda>k. 1 / 2) (\<lambda>k. (Fin 0, Fin 0))]
        initial_visualizer = Inr v
    \<and> handleExportImage (\<lambda>x. x) (\<lambda>r. nat \<lfloor>r\<rfloor>) v
          \<lparr> box_x = 76, box_y = 268, box_w = 48, box_h = 56 \<rparr>
          \<lparr> imageLoads = True, has2dContext = True \<rparr>
        = ImageSaved ''story-visual-map.png''
            \<lparr> width_px = 296, height_px = 312, viewBox = (26, 218, 148, 156) \<rparr>
    \<and> handleExportPDF (\<lambda>x. x) (\<lambda>r. nat \<lfloor>r\<rfloor>) v
          \<lparr> box_x = 76, box_y = 268, box_w = 48, box_h = 56 \<rparr>
          \<lparr> imageLoads = True, has2dContext = True \<rparr>
        = PdfSaved ''story-visual-map.pdf'' doc"
proof -
  have "\<exists>v cv doc. run (\<lambda>x. x)
        [Render [\<lparr> node_id = ''1'', title = ''A'', content = [] \<rparr>] [] 600 False (\<lambda>k. 1 / 2)
           (\<lambda>k. (Fin 0, Fin 0)),
         Render [] [] 600 False (\<lambda>k. 1 / 2) (\<lambda>k. (Fin 0, Fin 0))]
        initial_visualizer = Inr v
    \<and> handleExportImage (\<lambda>x. x) (\<lambda>r. nat \<lfloor>r\<rfloor>) v
          \<lparr> box_x = 76, box_y = 268, box_w = 48, box_h = 56 \<rparr>
          \<lparr> imageLoads = True, has2dContext = True \<rparr>
        = ImageSaved ''story-visual-map.png'' cv
    \<and> handleExportPDF (\<lambda>x. x) (\<lambda>r. nat \<lfloor>r\<rfloor>) v
          \<lparr> box_x = 76, box_y = 268, box_w = 48, box_h = 56 \<rparr>
          \<lparr> imageLoads = True, has2dContext = True \<rparr>
        = PdfSaved ''story-visual-map.pdf'' doc"
    by (rule export_of_emptied_story_gives_file) simp_all
  then obtain v cv doc where
    r: "run (\<lambda>x. x)
        [Render [\<lparr> node_id = ''1'', title = ''A'', content = [] \<rparr>] [] 600 False (\<lambda>k. 1 / 2)
           (\<lambda>k. (Fin 0, Fin 0)),
         Render [] [] 600 False (\<lambda>k. 1 / 2) (\<lambda>k. (Fin 0, Fin 0))]
        initial_visualizer = Inr v"
    and i: "handleExportImage (\<lambda>x. x) (\<lambda>r. nat \<lfloor>r\<rfloor>) v
          \<lparr> box_x = 76, box_y = 268, box_w = 48, box_h = 56 \<rparr>
          \<lparr> imageLoads = True, has2dContext = True \<rparr>
        = ImageSaved ''story-visual-map.png'' cv"
    and p: "handleExportPDF (\<lambda>x. x) (\<lambda>r. nat \<lfloor>r\<rfloor>) v
          \<lparr> box_x = 76, box_y = 268, box_w = 48, box_h = 56 \<rparr>
          \<lparr> imageLoads = True, has2dContext = True \<rparr>
        = PdfSaved ''story-visual-map.pdf'' doc"
    by blast
  from i have "cv = \<lparr> width_px = 296, height_px = 312, viewBox = (26, 218, 148, 156) \<rparr>"
    by (simp add: handleExportImage_def downloadImage_def svgToCanvas_def Let_def
        split: if_splits)
  with r i p show ?thesis by blast
qed




end
